theory Spec2Isabelle
  imports Complex_Main
begin

section \<open>Data model of the Convex tables\<close>

text \<open>
  The functions of \<^verbatim>\<open>convex/users.ts\<close> (the file carries the user and the event
  modules) run against a Convex database. Document identifiers are opaque; they are
  modelled as natural numbers, a fresh one being drawn from a counter on every insert.
  A field declared \<^verbatim>\<open>v.number()\<close>, a value of \<^verbatim>\<open>Date.now()\<close> and a duration are
  JavaScript numbers; they are modelled as reals, which is exact for the millisecond
  time stamps and the ticket counts the functions work with (NaN, the infinities and
  rounding beyond 2^53 are outside the model).
\<close>

type_synonym doc_id = nat

text \<open>
  \<^verbatim>\<open>WAITING_LIST_STATUS\<close> is imported from \<^verbatim>\<open>./constants\<close>; its members are the four
  statuses of a waiting-list entry.
\<close>

datatype waiting_list_status = WAITING | OFFERED | PURCHASED | EXPIRED

text \<open>
  The status of a ticket is a string. \<^verbatim>\<open>updateEvent\<close> compares it with the literals
  \<^verbatim>\<open>"valid"\<close> and \<^verbatim>\<open>"used"\<close>; \<^verbatim>\<open>TICKET_STATUS.VALID\<close> and \<^verbatim>\<open>TICKET_STATUS.USED\<close>
  of \<^verbatim>\<open>./constants\<close> name the same two values.
\<close>

definition TICKET_STATUS_VALID :: string where
  "TICKET_STATUS_VALID = ''valid''"

definition TICKET_STATUS_USED :: string where
  "TICKET_STATUS_USED = ''used''"

record event =
  ev_name :: string
  ev_description :: string
  ev_location :: string
  ev_eventDate :: real
  ev_price :: real
  totalTickets :: real
  ev_userId :: string

record ticket =
  t_id :: doc_id
  t_eventId :: doc_id
  t_status :: string

record waiting_entry =
  wl_id :: doc_id
  wl_eventId :: doc_id
  wl_userId :: string
  wl_status :: waiting_list_status
  offerExpiresAt :: "real option"

text \<open>
  A job registered with \<^verbatim>\<open>ctx.scheduler.runAfter(delay, internal.waitingList.expireOffer,
  {waitingListId, eventId})\<close>. The only function the source schedules is
  \<^verbatim>\<open>expireOffer\<close>, so a job is its delay and its two arguments.
\<close>

record expireOffer_job =
  job_delay :: real
  job_waitingListId :: doc_id
  job_eventId :: doc_id

text \<open>
  The state a handler runs against: the three tables, the scheduler's queue and the
  counter for fresh identifiers. The tables that are scanned are lists in creation order.
\<close>

record db =
  events :: "doc_id \<rightharpoonup> event"
  tickets :: "ticket list"
  waitingList :: "waiting_entry list"
  scheduled :: "expireOffer_job list"
  nextId :: doc_id

text \<open>
  The three errors the handlers throw, named after their messages:
  \<^verbatim>\<open>"Event not found"\<close>, \<^verbatim>\<open>"Already in waiting list for this event"\<close> and
  \<^verbatim>\<open>"Cannot reduce total tickets below n (number of tickets already sold)"\<close>.
\<close>

datatype error =
    Event_not_found
  | Already_in_waiting_list
  | Cannot_reduce_total_tickets nat

section \<open>Primitives of the database and the scheduler\<close>

text \<open>\<^verbatim>\<open>ctx.db.insert("waitingList", doc)\<close>: appends the document under a fresh
  identifier and returns the identifier.\<close>

definition insert_waitingList ::
  "db \<Rightarrow> doc_id \<Rightarrow> string \<Rightarrow> waiting_list_status \<Rightarrow> real option \<Rightarrow> doc_id \<times> db" where
  "insert_waitingList ctx eventId userId st expires =
     (nextId ctx,
      ctx\<lparr>waitingList := waitingList ctx @
             [\<lparr>wl_id = nextId ctx, wl_eventId = eventId, wl_userId = userId,
               wl_status = st, offerExpiresAt = expires\<rparr>],
          nextId := Suc (nextId ctx)\<rparr>)"

text \<open>\<^verbatim>\<open>ctx.scheduler.runAfter(delay, internal.waitingList.expireOffer, args)\<close>.\<close>

definition runAfter :: "db \<Rightarrow> real \<Rightarrow> doc_id \<Rightarrow> doc_id \<Rightarrow> db" where
  "runAfter ctx delay waitingListId eventId =
     ctx\<lparr>scheduled := scheduled ctx @
            [\<lparr>job_delay = delay, job_waitingListId = waitingListId,
              job_eventId = eventId\<rparr>]\<rparr>"

section \<open>The event module\<close>

subsection \<open>updateEvent\<close>

text \<open>
  A mutation returns its outcome together with the state at the point where it
  returned or threw, so that a write made before a throw would show.
\<close>

definition updateEvent ::
  "db \<Rightarrow> doc_id \<Rightarrow> string \<Rightarrow> string \<Rightarrow> string \<Rightarrow> real \<Rightarrow> real \<Rightarrow> real
     \<Rightarrow> (error + doc_id) \<times> db" where
  "updateEvent ctx eventId name description location eventDate price newTotal =
     (case events ctx eventId of
        None \<Rightarrow> (Inl Event_not_found, ctx)
      | Some event \<Rightarrow>
          let soldTickets =
                filter (\<lambda>t. t_status t = ''valid'' \<or> t_status t = ''used'')
                  (filter (\<lambda>t. t_eventId t = eventId) (tickets ctx))
          in if newTotal < real (length soldTickets)
             then (Inl (Cannot_reduce_total_tickets (length soldTickets)), ctx)
             else (Inr eventId,
                   ctx\<lparr>events := (events ctx)(eventId \<mapsto>
                          event\<lparr>ev_name := name, ev_description := description,
                                ev_location := location, ev_eventDate := eventDate,
                                ev_price := price, totalTickets := newTotal\<rparr>)\<rparr>))"

subsection \<open>getEventAvailability\<close>

record event_availability =
  isSoldOut :: bool
  ea_totalTickets :: real
  ea_purchasedCount :: nat
  ea_activeOffers :: nat
  remainingTickets :: real

text \<open>A query reads the state and the clock (\<^verbatim>\<open>Date.now()\<close>) and writes nothing.\<close>

definition getEventAvailability :: "db \<Rightarrow> doc_id \<Rightarrow> real \<Rightarrow> error + event_availability" where
  "getEventAvailability ctx eventId now =
     (case events ctx eventId of
        None \<Rightarrow> Inl Event_not_found
      | Some event \<Rightarrow>
          let purchasedCount =
                length (filter (\<lambda>t. t_status t = TICKET_STATUS_VALID \<or>
                                     t_status t = TICKET_STATUS_USED)
                          (filter (\<lambda>t. t_eventId t = eventId) (tickets ctx)));
              activeOffers =
                length (filter (\<lambda>e. (case offerExpiresAt e of None \<Rightarrow> 0 | Some x \<Rightarrow> x) > now)
                          (filter (\<lambda>e. wl_eventId e = eventId \<and> wl_status e = OFFERED)
                             (waitingList ctx)));
              totalReserved = purchasedCount + activeOffers
          in Inr \<lparr>isSoldOut = (real totalReserved \<ge> totalTickets event),
                  ea_totalTickets = totalTickets event,
                  ea_purchasedCount = purchasedCount,
                  ea_activeOffers = activeOffers,
                  remainingTickets = max 0 (totalTickets event - real totalReserved)\<rparr>)"

subsection \<open>checkAvailability\<close>

record availability =
  available :: bool
  availableSpots :: real
  av_totalTickets :: real
  av_purchasedCount :: nat
  av_activeOffers :: nat

definition checkAvailability :: "db \<Rightarrow> doc_id \<Rightarrow> real \<Rightarrow> error + availability" where
  "checkAvailability ctx eventId now =
     (case events ctx eventId of
        None \<Rightarrow> Inl Event_not_found
      | Some event \<Rightarrow>
          let purchasedCount =
                length (filter (\<lambda>t. t_status t = TICKET_STATUS_VALID \<or>
                                     t_status t = TICKET_STATUS_USED)
                          (filter (\<lambda>t. t_eventId t = eventId) (tickets ctx)));
              activeOffers =
                length (filter (\<lambda>e. (case offerExpiresAt e of None \<Rightarrow> 0 | Some x \<Rightarrow> x) > now)
                          (filter (\<lambda>e. wl_eventId e = eventId \<and> wl_status e = OFFERED)
                             (waitingList ctx)));
              spots = totalTickets event - real (purchasedCount + activeOffers)
          in Inr \<lparr>available = (spots > 0),
                  availableSpots = spots,
                  av_totalTickets = totalTickets event,
                  av_purchasedCount = purchasedCount,
                  av_activeOffers = activeOffers\<rparr>)"

subsection \<open>joinWaitingList\<close>

text \<open>
  The message of the result is a template literal; it is kept as its parts, the
  interpolated number unrendered.
\<close>

datatype message_part = Text string | Number real

record join_result =
  success :: bool
  status :: waiting_list_status
  message :: "message_part list"

text \<open>
  \<^verbatim>\<open>DURATIONS.TICKET_OFFER\<close> comes from \<^verbatim>\<open>./constants\<close> and is a parameter here. The
  clock is read twice, inside the \<^verbatim>\<open>checkAvailability\<close> query (\<open>queryNow\<close>) and after
  it (\<open>now\<close>).
\<close>

definition joinWaitingList ::
  "real \<Rightarrow> db \<Rightarrow> doc_id \<Rightarrow> string \<Rightarrow> real \<Rightarrow> real \<Rightarrow> (error + join_result) \<times> db" where
  "joinWaitingList TICKET_OFFER ctx eventId userId queryNow now =
     (case find (\<lambda>e. wl_userId e = userId \<and> wl_eventId e = eventId \<and>
                      wl_status e \<noteq> EXPIRED) (waitingList ctx) of
        Some existingEntry \<Rightarrow> (Inl Already_in_waiting_list, ctx)
      | None \<Rightarrow>
          (case events ctx eventId of
             None \<Rightarrow> (Inl Event_not_found, ctx)
           | Some event \<Rightarrow>
               (case checkAvailability ctx eventId queryNow of
                  Inl err \<Rightarrow> (Inl err, ctx)
                | Inr r \<Rightarrow>
                    if available r then
                      (let (waitingListId, ctx1) =
                             insert_waitingList ctx eventId userId OFFERED
                               (Some (now + TICKET_OFFER));
                           ctx2 = runAfter ctx1 TICKET_OFFER waitingListId eventId
                       in (Inr \<lparr>success = True, status = OFFERED,
                                 message = [Text ''Ticket offered - you have '',
                                            Number (TICKET_OFFER / (60 * 1000)),
                                            Text '' minutes to purchase'']\<rparr>,
                           ctx2))
                    else
                      (let (waitingListId, ctx1) =
                             insert_waitingList ctx eventId userId WAITING None
                       in (Inr \<lparr>success = True, status = WAITING,
                                 message = [Text ''Added to waiting list - you'll be notified when a ticket becomes available'']\<rparr>,
                           ctx1)))))"

section \<open>The expiry of an offer\<close>

text \<open>
  Modelled from the spec: \<^verbatim>\<open>expireOffer\<close> lives in \<^verbatim>\<open>convex/waitingList.ts\<close>, which is
  not among the sources; only its scheduling by \<^verbatim>\<open>joinWaitingList\<close> is. By section 4.3
  it loads the entry, does nothing when the status is no longer OFFERED and otherwise
  moves the entry to EXPIRED. The promotion it triggers afterwards advances a WAITING
  entry of the same event and changes nothing where the event has none.
\<close>

definition expireOffer_transition :: "db \<Rightarrow> doc_id \<Rightarrow> db" where
  "expireOffer_transition ctx waitingListId =
     ctx\<lparr>waitingList :=
           map (\<lambda>e. if wl_id e = waitingListId \<and> wl_status e = OFFERED
                     then e\<lparr>wl_status := EXPIRED\<rparr> else e)
             (waitingList ctx)\<rparr>"

section \<open>The counts in the words of the specification\<close>

text \<open>
  Section 4.1: \<open>purchasedCount\<close> is the count of the tickets of the event with status
  VALID or USED; \<open>activeOfferCount\<close> is the count of the waiting-list entries of the
  event with status OFFERED and \<open>offerExpiresAt > now\<close>. An entry that carries no
  \<open>offerExpiresAt\<close> has no expiry later than \<open>now\<close>.
\<close>

definition spec_purchasedCount :: "db \<Rightarrow> doc_id \<Rightarrow> nat" where
  "spec_purchasedCount ctx eventId =
     length (filter (\<lambda>t. t_eventId t = eventId \<and> t_status t \<in> {''valid'', ''used''})
               (tickets ctx))"

definition spec_activeOfferCount :: "db \<Rightarrow> doc_id \<Rightarrow> real \<Rightarrow> nat" where
  "spec_activeOfferCount ctx eventId now =
     length (filter (\<lambda>e. wl_eventId e = eventId \<and> wl_status e = OFFERED \<and>
                          (case offerExpiresAt e of None \<Rightarrow> False | Some t \<Rightarrow> t > now))
               (waitingList ctx))"

text \<open>Section 3: an entry is active when its status is not EXPIRED.\<close>

definition has_active_entry :: "db \<Rightarrow> doc_id \<Rightarrow> string \<Rightarrow> bool" where
  "has_active_entry ctx eventId userId =
     (\<exists>e \<in> set (waitingList ctx).
        wl_userId e = userId \<and> wl_eventId e = eventId \<and> wl_status e \<noteq> EXPIRED)"

text \<open>The state without the OFFERED entries that carry no \<open>offerExpiresAt\<close>.\<close>

definition without_unexpiring_offers :: "db \<Rightarrow> db" where
  "without_unexpiring_offers ctx =
     ctx\<lparr>waitingList :=
           filter (\<lambda>e. \<not> (wl_status e = OFFERED \<and> offerExpiresAt e = None))
             (waitingList ctx)\<rparr>"

section \<open>Example states\<close>

text \<open>
  One event with two tickets in total, one of them sold. \<open>db_offered\<close> is the state
  after \<open>alice\<close> joined at time 1000 with an offer of 30 minutes; in \<open>db_expired\<close> her
  entry is EXPIRED; in \<open>db_unexpiring\<close> her OFFERED entry carries no expiry;
  \<open>db_dangling\<close> holds an entry for an event that does not exist.
\<close>

definition concert :: event where
  "concert = \<lparr>ev_name = ''Concert'', ev_description = ''Live music'',
              ev_location = ''Town hall'', ev_eventDate = 1800000000000, ev_price = 25,
              totalTickets = 2, ev_userId = ''seller''\<rparr>"

definition db_one_sold :: db where
  "db_one_sold = \<lparr>events = [1 \<mapsto> concert],
                  tickets = [\<lparr>t_id = 2, t_eventId = 1, t_status = ''valid''\<rparr>],
                  waitingList = [], scheduled = [], nextId = 3\<rparr>"

definition db_offered :: db where
  "db_offered = \<lparr>events = [1 \<mapsto> concert],
                 tickets = [\<lparr>t_id = 2, t_eventId = 1, t_status = ''valid''\<rparr>],
                 waitingList = [\<lparr>wl_id = 3, wl_eventId = 1, wl_userId = ''alice'',
                                 wl_status = OFFERED, offerExpiresAt = Some 1801000\<rparr>],
                 scheduled = [\<lparr>job_delay = 1800000, job_waitingListId = 3, job_eventId = 1\<rparr>],
                 nextId = 4\<rparr>"

definition db_expired :: db where
  "db_expired = \<lparr>events = [1 \<mapsto> concert],
                 tickets = [\<lparr>t_id = 2, t_eventId = 1, t_status = ''valid''\<rparr>],
                 waitingList = [\<lparr>wl_id = 3, wl_eventId = 1, wl_userId = ''alice'',
                                 wl_status = EXPIRED, offerExpiresAt = Some 1801000\<rparr>],
                 scheduled = [\<lparr>job_delay = 1800000, job_waitingListId = 3, job_eventId = 1\<rparr>],
                 nextId = 4\<rparr>"

definition db_unexpiring :: db where
  "db_unexpiring = \<lparr>events = [1 \<mapsto> concert],
                    tickets = [\<lparr>t_id = 2, t_eventId = 1, t_status = ''valid''\<rparr>],
                    waitingList = [\<lparr>wl_id = 3, wl_eventId = 1, wl_userId = ''alice'',
                                    wl_status = OFFERED, offerExpiresAt = None\<rparr>],
                    scheduled = [], nextId = 4\<rparr>"

definition db_dangling :: db where
  "db_dangling = \<lparr>events = Map.empty, tickets = [],
                  waitingList = [\<lparr>wl_id = 0, wl_eventId = 5, wl_userId = ''alice'',
                                  wl_status = WAITING, offerExpiresAt = None\<rparr>],
                  scheduled = [], nextId = 1\<rparr>"

section \<open>The two counts of the handlers\<close>

lemma sold_filter_count:
  "length (filter (\<lambda>t. t_status t = TICKET_STATUS_VALID \<or> t_status t = TICKET_STATUS_USED)
             (filter (\<lambda>t. t_eventId t = eventId) (tickets ctx)))
   = spec_purchasedCount ctx eventId"
  unfolding spec_purchasedCount_def TICKET_STATUS_VALID_def TICKET_STATUS_USED_def
  by (simp add: conj_commute)

lemma sold_filter_count_literal:
  "length (filter (\<lambda>t. t_status t = ''valid'' \<or> t_status t = ''used'')
             (filter (\<lambda>t. t_eventId t = eventId) (tickets ctx)))
   = spec_purchasedCount ctx eventId"
  unfolding spec_purchasedCount_def
  by (simp add: conj_commute)

text \<open>
  The handlers read a missing \<open>offerExpiresAt\<close> as 0. That agrees with the count of
  the specification when the clock is not negative, and also when every OFFERED entry
  of the event carries its expiry.
\<close>

lemma offer_filter_count:
  assumes "0 \<le> now \<or> (\<forall>e \<in> set (waitingList ctx).
             wl_eventId e = eventId \<and> wl_status e = OFFERED \<longrightarrow> offerExpiresAt e \<noteq> None)"
  shows "length (filter (\<lambda>e. (case offerExpiresAt e of None \<Rightarrow> 0 | Some x \<Rightarrow> x) > now)
                   (filter (\<lambda>e. wl_eventId e = eventId \<and> wl_status e = OFFERED)
                      (waitingList ctx)))
         = spec_activeOfferCount ctx eventId now"
proof -
  have "filter (\<lambda>e. (case offerExpiresAt e of None \<Rightarrow> 0 | Some x \<Rightarrow> x) > now)
          (filter (\<lambda>e. wl_eventId e = eventId \<and> wl_status e = OFFERED) (waitingList ctx))
        = filter (\<lambda>e. wl_eventId e = eventId \<and> wl_status e = OFFERED \<and>
                       (case offerExpiresAt e of None \<Rightarrow> False | Some t \<Rightarrow> t > now))
            (waitingList ctx)"
    unfolding filter_filter
    by (rule filter_cong) (use assms in \<open>auto split: option.splits\<close>)
  then show ?thesis by (simp add: spec_activeOfferCount_def)
qed

lemma checkAvailability_existing:
  assumes "events ctx eventId = Some ev"
      and "0 \<le> now \<or> (\<forall>e \<in> set (waitingList ctx).
             wl_eventId e = eventId \<and> wl_status e = OFFERED \<longrightarrow> offerExpiresAt e \<noteq> None)"
  shows "checkAvailability ctx eventId now =
           Inr \<lparr>available =
                  (real (spec_purchasedCount ctx eventId + spec_activeOfferCount ctx eventId now)
                     < totalTickets ev),
                availableSpots = totalTickets ev -
                  real (spec_purchasedCount ctx eventId + spec_activeOfferCount ctx eventId now),
                av_totalTickets = totalTickets ev,
                av_purchasedCount = spec_purchasedCount ctx eventId,
                av_activeOffers = spec_activeOfferCount ctx eventId now\<rparr>"
  unfolding checkAvailability_def Let_def sold_filter_count offer_filter_count[OF assms(2)]
  by (simp add: assms(1))

lemma checkAvailability_total:
  assumes "events ctx eventId = Some ev"
  shows "\<exists>r. checkAvailability ctx eventId now = Inr r"
  by (simp add: checkAvailability_def assms Let_def)

section \<open>The three ways through joinWaitingList\<close>

lemma find_active_entry:
  "(find (\<lambda>e. wl_userId e = userId \<and> wl_eventId e = eventId \<and> wl_status e \<noteq> EXPIRED)
      (waitingList ctx) = None) = (\<not> has_active_entry ctx eventId userId)"
  by (auto simp: find_None_iff has_active_entry_def)

lemma joinWaitingList_existing_entry:
  assumes "has_active_entry ctx eventId userId"
  shows "joinWaitingList ttl ctx eventId userId qn n = (Inl Already_in_waiting_list, ctx)"
proof -
  have "find (\<lambda>e. wl_userId e = userId \<and> wl_eventId e = eventId \<and> wl_status e \<noteq> EXPIRED)
          (waitingList ctx) \<noteq> None"
    using assms find_active_entry[of userId eventId ctx] by simp
  then obtain x where
    "find (\<lambda>e. wl_userId e = userId \<and> wl_eventId e = eventId \<and> wl_status e \<noteq> EXPIRED)
       (waitingList ctx) = Some x"
    by blast
  then show ?thesis by (simp add: joinWaitingList_def)
qed

lemma joinWaitingList_no_event:
  assumes "\<not> has_active_entry ctx eventId userId" and "events ctx eventId = None"
  shows "joinWaitingList ttl ctx eventId userId qn n = (Inl Event_not_found, ctx)"
  using assms find_active_entry[of userId eventId ctx]
  by (simp add: joinWaitingList_def)

lemma joinWaitingList_admitted:
  assumes "\<not> has_active_entry ctx eventId userId" and "events ctx eventId = Some ev"
      and "checkAvailability ctx eventId qn = Inr r"
  shows "joinWaitingList ttl ctx eventId userId qn n =
           (if available r then
              (Inr \<lparr>success = True, status = OFFERED,
                    message = [Text ''Ticket offered - you have '',
                               Number (ttl / 60000),
                               Text '' minutes to purchase'']\<rparr>,
               ctx\<lparr>waitingList := waitingList ctx @
                      [\<lparr>wl_id = nextId ctx, wl_eventId = eventId, wl_userId = userId,
                        wl_status = OFFERED, offerExpiresAt = Some (n + ttl)\<rparr>],
                   nextId := Suc (nextId ctx),
                   scheduled := scheduled ctx @
                      [\<lparr>job_delay = ttl, job_waitingListId = nextId ctx,
                        job_eventId = eventId\<rparr>]\<rparr>)
            else
              (Inr \<lparr>success = True, status = WAITING,
                    message = [Text ''Added to waiting list - you'll be notified when a ticket becomes available'']\<rparr>,
               ctx\<lparr>waitingList := waitingList ctx @
                      [\<lparr>wl_id = nextId ctx, wl_eventId = eventId, wl_userId = userId,
                        wl_status = WAITING, offerExpiresAt = None\<rparr>],
                   nextId := Suc (nextId ctx)\<rparr>))"
  using assms find_active_entry[of userId eventId ctx]
  by (simp add: joinWaitingList_def insert_waitingList_def runAfter_def)

section \<open>The claims\<close>

text \<open>
  C1. For every call of \<open>joinWaitingList\<close>: when some waiting-list entry of the user
  for the event has a status other than EXPIRED, the call fails with the error
  "Already in waiting list for this event"; when every such entry is EXPIRED (or there is
  none) and the event exists, the call does not fail with that error, it succeeds and
  appends one new entry for the user and the event.
\<close>

theorem joinWaitingList_duplicate_guard:
  "((\<exists>e \<in> set (waitingList ctx).
        wl_userId e = userId \<and> wl_eventId e = eventId \<and> wl_status e \<noteq> EXPIRED)
      \<longrightarrow> fst (joinWaitingList ttl ctx eventId userId qn n) = Inl Already_in_waiting_list)
   \<and> ((\<forall>e \<in> set (waitingList ctx).
          wl_userId e = userId \<and> wl_eventId e = eventId \<longrightarrow> wl_status e = EXPIRED)
        \<and> events ctx eventId \<noteq> None
      \<longrightarrow> fst (joinWaitingList ttl ctx eventId userId qn n) \<noteq> Inl Already_in_waiting_list
          \<and> (\<exists>r. fst (joinWaitingList ttl ctx eventId userId qn n) = Inr r)
          \<and> (\<exists>e. waitingList (snd (joinWaitingList ttl ctx eventId userId qn n))
                     = waitingList ctx @ [e]
                 \<and> wl_id e = nextId ctx \<and> wl_eventId e = eventId \<and> wl_userId e = userId))"
proof (intro conjI impI)
  assume "\<exists>e \<in> set (waitingList ctx).
        wl_userId e = userId \<and> wl_eventId e = eventId \<and> wl_status e \<noteq> EXPIRED"
  then have "has_active_entry ctx eventId userId" by (simp add: has_active_entry_def)
  then show "fst (joinWaitingList ttl ctx eventId userId qn n) = Inl Already_in_waiting_list"
    by (simp add: joinWaitingList_existing_entry)
next
  assume h: "(\<forall>e \<in> set (waitingList ctx).
          wl_userId e = userId \<and> wl_eventId e = eventId \<longrightarrow> wl_status e = EXPIRED)
        \<and> events ctx eventId \<noteq> None"
  then have free: "\<not> has_active_entry ctx eventId userId"
    by (auto simp: has_active_entry_def)
  from h obtain ev where ev: "events ctx eventId = Some ev" by auto
  obtain r where r: "checkAvailability ctx eventId qn = Inr r"
    using checkAvailability_total[OF ev] by blast
  note j = joinWaitingList_admitted[OF free ev r, of ttl n]
  show "fst (joinWaitingList ttl ctx eventId userId qn n) \<noteq> Inl Already_in_waiting_list"
    by (simp add: j)
  show "\<exists>r. fst (joinWaitingList ttl ctx eventId userId qn n) = Inr r"
    by (simp add: j)
  show "\<exists>e. waitingList (snd (joinWaitingList ttl ctx eventId userId qn n))
                     = waitingList ctx @ [e]
                 \<and> wl_id e = nextId ctx \<and> wl_eventId e = eventId \<and> wl_userId e = userId"
    by (simp add: j)
qed

text \<open>
  With her offer outstanding \<open>alice\<close> is turned away; once the entry is EXPIRED she
  joins again and a second entry is appended.
\<close>

theorem joinWaitingList_duplicate_guard_witness:
  "(\<exists>e \<in> set (waitingList db_offered).
      wl_userId e = ''alice'' \<and> wl_eventId e = 1 \<and> wl_status e \<noteq> EXPIRED)
   \<and> fst (joinWaitingList 1800000 db_offered 1 ''alice'' 2000 2000) = Inl Already_in_waiting_list
   \<and> events db_expired 1 \<noteq> None
   \<and> fst (joinWaitingList 1800000 db_expired 1 ''alice'' 1900000 1900000)
       \<noteq> Inl Already_in_waiting_list
   \<and> (\<exists>e. waitingList (snd (joinWaitingList 1800000 db_expired 1 ''alice'' 1900000 1900000))
              = waitingList db_expired @ [e]
          \<and> wl_id e = 4 \<and> wl_eventId e = 1 \<and> wl_userId e = ''alice'')"
  using joinWaitingList_duplicate_guard
          [where ctx = db_offered and userId = "''alice''" and eventId = 1
             and ttl = 1800000 and qn = 2000 and n = 2000]
        joinWaitingList_duplicate_guard
          [where ctx = db_expired and userId = "''alice''" and eventId = 1
             and ttl = 1800000 and qn = 1900000 and n = 1900000]
  by (simp add: db_offered_def db_expired_def)

text \<open>
  C2. For every existing event and every time \<open>now\<close> (milliseconds since the epoch,
  so not negative), \<open>getEventAvailability\<close> returns as \<open>purchasedCount\<close> the count of
  the event's tickets with status valid or used, as \<open>activeOffers\<close> the count of the
  event's entries with status OFFERED and \<open>offerExpiresAt\<close> strictly greater than \<open>now\<close>,
  as \<open>remainingTickets\<close> the maximum of 0 and \<open>totalTickets\<close> minus the sum of the two,
  and \<open>isSoldOut\<close> exactly when that sum reaches \<open>totalTickets\<close>.
\<close>

theorem getEventAvailability_counts:
  assumes "events ctx eventId = Some ev" and "0 \<le> now"
  shows "getEventAvailability ctx eventId now =
           Inr \<lparr>isSoldOut =
                  (real (spec_purchasedCount ctx eventId + spec_activeOfferCount ctx eventId now)
                     \<ge> totalTickets ev),
                ea_totalTickets = totalTickets ev,
                ea_purchasedCount = spec_purchasedCount ctx eventId,
                ea_activeOffers = spec_activeOfferCount ctx eventId now,
                remainingTickets = max 0 (totalTickets ev -
                  real (spec_purchasedCount ctx eventId + spec_activeOfferCount ctx eventId now))\<rparr>"
proof -
  have a: "0 \<le> now \<or> (\<forall>e \<in> set (waitingList ctx).
             wl_eventId e = eventId \<and> wl_status e = OFFERED \<longrightarrow> offerExpiresAt e \<noteq> None)"
    using assms(2) by simp
  show ?thesis
    unfolding getEventAvailability_def Let_def sold_filter_count offer_filter_count[OF a]
    by (simp add: assms(1))
qed

theorem getEventAvailability_counts_witness:
  "events db_offered 1 = Some concert \<and> (0::real) \<le> 2000
   \<and> getEventAvailability db_offered 1 2000 =
       Inr \<lparr>isSoldOut = True, ea_totalTickets = 2, ea_purchasedCount = 1,
            ea_activeOffers = 1, remainingTickets = 0\<rparr>"
  using getEventAvailability_counts
          [where ctx = db_offered and eventId = 1 and ev = concert and now = 2000]
  by (simp add: db_offered_def concert_def spec_purchasedCount_def spec_activeOfferCount_def)

text \<open>
  C3. For every call of \<open>joinWaitingList\<close> whose preconditions hold (the event exists,
  the pair has no entry that is not EXPIRED): when \<open>purchasedCount + activeOffers\<close> is
  below \<open>totalTickets\<close> at the time of the availability query, the call appends an
  entry with status OFFERED and \<open>offerExpiresAt = now + TICKET_OFFER\<close> and schedules
  \<open>expireOffer\<close> for that entry and event after \<open>TICKET_OFFER\<close>; otherwise it appends
  an entry with status WAITING and no \<open>offerExpiresAt\<close> and schedules nothing. The
  counts are those of the specification, taken at the clock of the query, which is not
  negative.
\<close>

theorem joinWaitingList_offer_or_wait:
  assumes "events ctx eventId = Some ev"
      and "\<forall>e \<in> set (waitingList ctx).
             wl_userId e = userId \<and> wl_eventId e = eventId \<longrightarrow> wl_status e = EXPIRED"
      and "0 \<le> qn"
  shows "snd (joinWaitingList ttl ctx eventId userId qn n) =
          (if real (spec_purchasedCount ctx eventId + spec_activeOfferCount ctx eventId qn)
                < totalTickets ev
           then ctx\<lparr>waitingList := waitingList ctx @
                      [\<lparr>wl_id = nextId ctx, wl_eventId = eventId, wl_userId = userId,
                        wl_status = OFFERED, offerExpiresAt = Some (n + ttl)\<rparr>],
                    nextId := Suc (nextId ctx),
                    scheduled := scheduled ctx @
                      [\<lparr>job_delay = ttl, job_waitingListId = nextId ctx,
                        job_eventId = eventId\<rparr>]\<rparr>
           else ctx\<lparr>waitingList := waitingList ctx @
                      [\<lparr>wl_id = nextId ctx, wl_eventId = eventId, wl_userId = userId,
                        wl_status = WAITING, offerExpiresAt = None\<rparr>],
                    nextId := Suc (nextId ctx)\<rparr>)"
proof -
  have free: "\<not> has_active_entry ctx eventId userId"
    using assms(2) by (auto simp: has_active_entry_def)
  have a: "0 \<le> qn \<or> (\<forall>e \<in> set (waitingList ctx).
             wl_eventId e = eventId \<and> wl_status e = OFFERED \<longrightarrow> offerExpiresAt e \<noteq> None)"
    using assms(3) by simp
  show ?thesis
    by (simp add: joinWaitingList_admitted
                    [OF free assms(1) checkAvailability_existing[OF assms(1) a]])
qed

text \<open>
  The first join takes the free ticket as an offer and leaves \<open>db_offered\<close>; the next
  user finds the event fully reserved and waits.
\<close>

theorem joinWaitingList_offer_or_wait_witness:
  "events db_one_sold 1 = Some concert
   \<and> (0::real) \<le> 1000
   \<and> snd (joinWaitingList 1800000 db_one_sold 1 ''alice'' 1000 1000) = db_offered
   \<and> snd (joinWaitingList 1800000 db_offered 1 ''bob'' 2000 2000) =
       db_offered\<lparr>waitingList := waitingList db_offered @
                     [\<lparr>wl_id = 4, wl_eventId = 1, wl_userId = ''bob'',
                       wl_status = WAITING, offerExpiresAt = None\<rparr>],
                  nextId := 5\<rparr>"
  using joinWaitingList_offer_or_wait
          [where ctx = db_one_sold and eventId = 1 and ev = concert and userId = "''alice''"
             and ttl = 1800000 and qn = 1000 and n = 1000]
        joinWaitingList_offer_or_wait
          [where ctx = db_offered and eventId = 1 and ev = concert and userId = "''bob''"
             and ttl = 1800000 and qn = 2000 and n = 2000]
  by (simp add: db_one_sold_def db_offered_def concert_def spec_purchasedCount_def
        spec_activeOfferCount_def)

text \<open>
  C4. The claim: for every state, also one in which \<open>purchasedCount + activeOffers\<close>
  exceeds \<open>totalTickets\<close>, \<open>checkAvailability\<close> returns \<open>availableSpots\<close> as the maximum
  of 0 and the difference, so never a negative number. The handler returns the plain
  difference. The state below is reached through the handlers themselves: \<open>alice\<close>
  takes the last free ticket as an offer, then \<open>updateEvent\<close> lowers \<open>totalTickets\<close> to
  the one ticket sold (its guard counts sold tickets, not offers). There
  \<open>checkAvailability\<close> reports \<open>- 1\<close> available spots, while \<open>getEventAvailability\<close>,
  which clamps, reports 0 remaining tickets.
\<close>

theorem checkAvailability_negative_spots:
  "fst (joinWaitingList 1800000 db_one_sold 1 ''alice'' 1000 1000)
     = Inr \<lparr>success = True, status = OFFERED,
            message = [Text ''Ticket offered - you have '', Number 30,
                       Text '' minutes to purchase'']\<rparr>
   \<and> snd (joinWaitingList 1800000 db_one_sold 1 ''alice'' 1000 1000) = db_offered
   \<and> fst (updateEvent db_offered 1 ''Concert'' ''Live music'' ''Town hall''
             1800000000000 25 1) = Inr 1
   \<and> checkAvailability
       (snd (updateEvent db_offered 1 ''Concert'' ''Live music'' ''Town hall''
               1800000000000 25 1)) 1 2000
     = Inr \<lparr>available = False, availableSpots = - 1, av_totalTickets = 1,
            av_purchasedCount = 1, av_activeOffers = 1\<rparr>
   \<and> getEventAvailability
       (snd (updateEvent db_offered 1 ''Concert'' ''Live music'' ''Town hall''
               1800000000000 25 1)) 1 2000
     = Inr \<lparr>isSoldOut = True, ea_totalTickets = 1, ea_purchasedCount = 1,
            ea_activeOffers = 1, remainingTickets = 0\<rparr>"
  by (simp add: joinWaitingList_def checkAvailability_def getEventAvailability_def
        updateEvent_def insert_waitingList_def runAfter_def db_one_sold_def db_offered_def
        concert_def TICKET_STATUS_VALID_def TICKET_STATUS_USED_def)

text \<open>
  C5. For an event with \<open>totalTickets = 2\<close> whose sold tickets are exactly one valid
  ticket and whose only OFFERED entry expires strictly after \<open>now\<close>,
  \<open>checkAvailability\<close> returns \<open>available = false\<close> and \<open>availableSpots = 0\<close>. At any
  time \<open>now'\<close> strictly after that expiry \<open>availableSpots\<close> is 1, both once
  \<open>expireOffer\<close> has moved the entry to EXPIRED and before it has run. The event has
  no WAITING entry, so the promotion of \<open>expireOffer\<close> has nothing to advance.
\<close>

theorem checkAvailability_concrete_case:
  assumes ev: "events ctx eventId = Some ev" and total: "totalTickets ev = 2"
      and valid: "length (filter (\<lambda>t. t_eventId t = eventId \<and> t_status t = ''valid'')
                            (tickets ctx)) = 1"
      and used: "\<forall>t \<in> set (tickets ctx). t_eventId t = eventId \<longrightarrow> t_status t \<noteq> ''used''"
      and offer: "filter (\<lambda>e. wl_eventId e = eventId \<and> wl_status e = OFFERED)
                    (waitingList ctx) = [offer]"
      and waiting: "\<forall>e \<in> set (waitingList ctx).
                      wl_eventId e = eventId \<longrightarrow> wl_status e \<noteq> WAITING"
      and expiry: "offerExpiresAt offer = Some t" and future: "now < t" and later: "t < now'"
  shows "checkAvailability ctx eventId now =
           Inr \<lparr>available = False, availableSpots = 0, av_totalTickets = 2,
                av_purchasedCount = 1, av_activeOffers = 1\<rparr>
       \<and> checkAvailability (expireOffer_transition ctx (wl_id offer)) eventId now' =
           Inr \<lparr>available = True, availableSpots = 1, av_totalTickets = 2,
                av_purchasedCount = 1, av_activeOffers = 0\<rparr>
       \<and> checkAvailability ctx eventId now' =
           Inr \<lparr>available = True, availableSpots = 1, av_totalTickets = 2,
                av_purchasedCount = 1, av_activeOffers = 0\<rparr>"
proof -
  have sold: "filter (\<lambda>t. t_status t = TICKET_STATUS_VALID \<or> t_status t = TICKET_STATUS_USED)
                (filter (\<lambda>t. t_eventId t = eventId) (tickets ctx))
              = filter (\<lambda>t. t_eventId t = eventId \<and> t_status t = ''valid'') (tickets ctx)"
    unfolding filter_filter TICKET_STATUS_VALID_def TICKET_STATUS_USED_def
    by (rule filter_cong) (use used in auto)
  have gone: "filter (\<lambda>e. wl_eventId e = eventId \<and> wl_status e = OFFERED)
                (map (\<lambda>e. if wl_id e = wl_id offer \<and> wl_status e = OFFERED
                           then e\<lparr>wl_status := EXPIRED\<rparr> else e) (waitingList ctx)) = []"
  proof -
    have "\<forall>e \<in> set (waitingList ctx).
            wl_eventId e = eventId \<and> wl_status e = OFFERED \<longrightarrow> e = offer"
    proof (intro ballI impI)
      fix e
      assume "e \<in> set (waitingList ctx)" "wl_eventId e = eventId \<and> wl_status e = OFFERED"
      then have "e \<in> set (filter (\<lambda>e. wl_eventId e = eventId \<and> wl_status e = OFFERED)
                    (waitingList ctx))" by simp
      then show "e = offer" unfolding offer by simp
    qed
    then show ?thesis by (auto simp: filter_empty_conv)
  qed
  have first: "checkAvailability ctx eventId now =
           Inr \<lparr>available = False, availableSpots = 0, av_totalTickets = 2,
                av_purchasedCount = 1, av_activeOffers = 1\<rparr>"
    unfolding checkAvailability_def Let_def sold offer
    by (simp add: ev total valid expiry future)
  have second: "checkAvailability (expireOffer_transition ctx (wl_id offer)) eventId now' =
           Inr \<lparr>available = True, availableSpots = 1, av_totalTickets = 2,
                av_purchasedCount = 1, av_activeOffers = 0\<rparr>"
  proof -
    have e: "events (expireOffer_transition ctx (wl_id offer)) = events ctx"
      and k: "tickets (expireOffer_transition ctx (wl_id offer)) = tickets ctx"
      and w: "waitingList (expireOffer_transition ctx (wl_id offer)) =
                map (\<lambda>e. if wl_id e = wl_id offer \<and> wl_status e = OFFERED
                          then e\<lparr>wl_status := EXPIRED\<rparr> else e) (waitingList ctx)"
      by (simp_all add: expireOffer_transition_def)
    show ?thesis
      unfolding checkAvailability_def Let_def e k w sold gone
      by (simp add: ev total valid)
  qed
  have third: "checkAvailability ctx eventId now' =
           Inr \<lparr>available = True, availableSpots = 1, av_totalTickets = 2,
                av_purchasedCount = 1, av_activeOffers = 0\<rparr>"
    unfolding checkAvailability_def Let_def sold offer
    using later by (simp add: ev total valid expiry)
  from first second third show ?thesis by simp
qed

theorem checkAvailability_concrete_case_witness:
  "checkAvailability db_offered 1 2000 =
     Inr \<lparr>available = False, availableSpots = 0, av_totalTickets = 2,
          av_purchasedCount = 1, av_activeOffers = 1\<rparr>
   \<and> checkAvailability (expireOffer_transition db_offered 3) 1 1900000 =
     Inr \<lparr>available = True, availableSpots = 1, av_totalTickets = 2,
          av_purchasedCount = 1, av_activeOffers = 0\<rparr>"
  using checkAvailability_concrete_case
          [where ctx = db_offered and eventId = 1 and ev = concert and now = 2000
             and t = 1801000 and now' = 1900000
             and offer = "\<lparr>wl_id = 3, wl_eventId = 1, wl_userId = ''alice'',
                           wl_status = OFFERED, offerExpiresAt = Some 1801000\<rparr>"]
  by (simp add: db_offered_def concert_def)

text \<open>
  C6. Every call of \<open>joinWaitingList\<close> that fails fails with one of its two errors and
  leaves the state as it was: both throws precede every write, so no entry is inserted
  and no job is scheduled. A call that succeeds appends one entry, and the scheduler's
  queue grows by the \<open>expireOffer\<close> job of that entry exactly when the entry is
  OFFERED; for a WAITING entry the queue is unchanged.
\<close>

theorem joinWaitingList_no_partial_write:
  "(\<forall>err. fst (joinWaitingList ttl ctx eventId userId qn n) = Inl err \<longrightarrow>
       snd (joinWaitingList ttl ctx eventId userId qn n) = ctx
       \<and> (err = Already_in_waiting_list \<or> err = Event_not_found))
   \<and> (\<forall>r. fst (joinWaitingList ttl ctx eventId userId qn n) = Inr r \<longrightarrow>
         (\<exists>e. waitingList (snd (joinWaitingList ttl ctx eventId userId qn n))
                 = waitingList ctx @ [e]
              \<and> scheduled (snd (joinWaitingList ttl ctx eventId userId qn n))
                 = scheduled ctx @
                     (if wl_status e = OFFERED
                      then [\<lparr>job_delay = ttl, job_waitingListId = wl_id e,
                             job_eventId = eventId\<rparr>]
                      else [])
              \<and> (wl_status e = OFFERED \<or> wl_status e = WAITING)
              \<and> events (snd (joinWaitingList ttl ctx eventId userId qn n)) = events ctx
              \<and> tickets (snd (joinWaitingList ttl ctx eventId userId qn n)) = tickets ctx))"
proof (cases "has_active_entry ctx eventId userId")
  case True
  then show ?thesis by (simp add: joinWaitingList_existing_entry)
next
  case free: False
  show ?thesis
  proof (cases "events ctx eventId")
    case None
    then show ?thesis by (simp add: joinWaitingList_no_event[OF free])
  next
    case (Some ev)
    obtain r where r: "checkAvailability ctx eventId qn = Inr r"
      using checkAvailability_total[OF Some] by blast
    show ?thesis
      by (cases "available r") (simp_all add: joinWaitingList_admitted[OF free Some r])
  qed
qed

theorem joinWaitingList_no_partial_write_witness:
  "fst (joinWaitingList 1800000 db_offered 1 ''alice'' 2000 2000) = Inl Already_in_waiting_list
   \<and> snd (joinWaitingList 1800000 db_offered 1 ''alice'' 2000 2000) = db_offered
   \<and> fst (joinWaitingList 1800000 db_offered 7 ''bob'' 2000 2000) = Inl Event_not_found
   \<and> snd (joinWaitingList 1800000 db_offered 7 ''bob'' 2000 2000) = db_offered
   \<and> scheduled (snd (joinWaitingList 1800000 db_one_sold 1 ''alice'' 1000 1000)) =
       [\<lparr>job_delay = 1800000, job_waitingListId = 3, job_eventId = 1\<rparr>]"
  using joinWaitingList_no_partial_write
          [where ctx = db_offered and eventId = 1 and userId = "''alice''"
             and ttl = 1800000 and qn = 2000 and n = 2000]
        joinWaitingList_no_partial_write
          [where ctx = db_offered and eventId = 7 and userId = "''bob''"
             and ttl = 1800000 and qn = 2000 and n = 2000]
        joinWaitingList_no_partial_write
          [where ctx = db_one_sold and eventId = 1 and userId = "''alice''"
             and ttl = 1800000 and qn = 1000 and n = 1000]
  by (simp add: joinWaitingList_def checkAvailability_def insert_waitingList_def runAfter_def
        db_one_sold_def db_offered_def concert_def TICKET_STATUS_VALID_def
        TICKET_STATUS_USED_def)

text \<open>
  C7, as claimed: for every \<open>eventId\<close> that refers to no event, \<open>joinWaitingList\<close>
  fails with the event-not-found error. It does not where the user still has an entry
  that is not EXPIRED for that identifier: the duplicate check runs before the event is
  loaded, and the call fails with the error of the duplicate check.
\<close>

theorem joinWaitingList_missing_event_counterexample:
  "events db_dangling 5 = None
   \<and> fst (joinWaitingList 1800000 db_dangling 5 ''alice'' 1000 1000) \<noteq> Inl Event_not_found"
  by (simp add: joinWaitingList_def db_dangling_def)

text \<open>
  C7, amended. For every \<open>eventId\<close> that refers to no event, \<open>checkAvailability\<close> and
  \<open>getEventAvailability\<close> fail with the event-not-found error, and \<open>joinWaitingList\<close>
  fails with it unless the user has an entry that is not EXPIRED for that identifier,
  in which case it fails with the error of the duplicate check. The two queries return
  no state, and \<open>joinWaitingList\<close> leaves the state as it was.
\<close>

theorem missing_event_errors:
  assumes "events ctx eventId = None"
  shows "checkAvailability ctx eventId now = Inl Event_not_found
       \<and> getEventAvailability ctx eventId now = Inl Event_not_found
       \<and> joinWaitingList ttl ctx eventId userId qn n =
           (Inl (if (\<exists>e \<in> set (waitingList ctx).
                       wl_userId e = userId \<and> wl_eventId e = eventId \<and> wl_status e \<noteq> EXPIRED)
                 then Already_in_waiting_list else Event_not_found), ctx)"
proof (cases "has_active_entry ctx eventId userId")
  case True
  then show ?thesis
    using assms joinWaitingList_existing_entry[OF True]
    by (simp add: checkAvailability_def getEventAvailability_def has_active_entry_def)
next
  case False
  then show ?thesis
    using assms joinWaitingList_no_event[OF False assms]
    by (simp add: checkAvailability_def getEventAvailability_def has_active_entry_def)
qed

theorem missing_event_errors_witness:
  "events db_offered 7 = None
   \<and> checkAvailability db_offered 7 2000 = Inl Event_not_found
   \<and> getEventAvailability db_offered 7 2000 = Inl Event_not_found
   \<and> joinWaitingList 1800000 db_offered 7 ''alice'' 2000 2000 = (Inl Event_not_found, db_offered)
   \<and> joinWaitingList 1800000 db_dangling 5 ''alice'' 2000 2000
       = (Inl Already_in_waiting_list, db_dangling)"
  using missing_event_errors
          [where ctx = db_offered and eventId = 7 and now = 2000 and ttl = 1800000
             and userId = "''alice''" and qn = 2000 and n = 2000]
        missing_event_errors
          [where ctx = db_dangling and eventId = 5 and now = 2000 and ttl = 1800000
             and userId = "''alice''" and qn = 2000 and n = 2000]
  by (simp add: db_offered_def db_dangling_def)

text \<open>
  C8. For every existing event, \<open>updateEvent\<close> fails with the capacity-reduction error
  exactly when the new \<open>totalTickets\<close> is strictly below the count of the event's
  tickets with status valid or used. A failing call carries that count in its error
  and leaves the state, and so the event, unchanged; a call that succeeds returns the
  identifier and stores the six given fields in the event, keeping its owner.
\<close>

theorem updateEvent_capacity_guard:
  assumes "events ctx eventId = Some ev"
  shows "((\<exists>k. fst (updateEvent ctx eventId name description location eventDate price newTotal)
               = Inl (Cannot_reduce_total_tickets k))
           \<longleftrightarrow> newTotal < real (spec_purchasedCount ctx eventId))
       \<and> (\<forall>err. fst (updateEvent ctx eventId name description location eventDate price newTotal)
                  = Inl err
             \<longrightarrow> err = Cannot_reduce_total_tickets (spec_purchasedCount ctx eventId)
                 \<and> snd (updateEvent ctx eventId name description location eventDate price newTotal)
                     = ctx)
       \<and> (\<not> newTotal < real (spec_purchasedCount ctx eventId)
             \<longrightarrow> updateEvent ctx eventId name description location eventDate price newTotal
                   = (Inr eventId,
                      ctx\<lparr>events := (events ctx)(eventId \<mapsto>
                             \<lparr>ev_name = name, ev_description = description,
                              ev_location = location, ev_eventDate = eventDate,
                              ev_price = price, totalTickets = newTotal,
                              ev_userId = ev_userId ev\<rparr>)\<rparr>))"
  unfolding updateEvent_def Let_def sold_filter_count_literal
  by (cases ev) (simp add: assms)

theorem updateEvent_capacity_guard_witness:
  "events db_offered 1 = Some concert
   \<and> updateEvent db_offered 1 ''Gala'' ''Black tie'' ''Opera'' 1900000000000 40 0
       = (Inl (Cannot_reduce_total_tickets 1), db_offered)
   \<and> updateEvent db_offered 1 ''Gala'' ''Black tie'' ''Opera'' 1900000000000 40 1
       = (Inr 1,
          db_offered\<lparr>events := [1 \<mapsto>
             \<lparr>ev_name = ''Gala'', ev_description = ''Black tie'', ev_location = ''Opera'',
              ev_eventDate = 1900000000000, ev_price = 40, totalTickets = 1,
              ev_userId = ''seller''\<rparr>]\<rparr>)"
  using updateEvent_capacity_guard
          [where ctx = db_offered and eventId = 1 and ev = concert and name = "''Gala''"
             and description = "''Black tie''" and location = "''Opera''"
             and eventDate = 1900000000000 and price = 40 and newTotal = 0]
        updateEvent_capacity_guard
          [where ctx = db_offered and eventId = 1 and ev = concert and name = "''Gala''"
             and description = "''Black tie''" and location = "''Opera''"
             and eventDate = 1900000000000 and price = 40 and newTotal = 1]
  by (simp add: updateEvent_def db_offered_def concert_def spec_purchasedCount_def)

text \<open>
  C9. For every call of \<open>joinWaitingList\<close> that succeeds, the status of the result is
  the status of the entry the call appended: OFFERED when \<open>checkAvailability\<close> found a
  ticket available, WAITING otherwise. On the OFFERED path the message is the template
  with the number \<open>TICKET_OFFER / 60000\<close>, the offer's duration in minutes, in it.
\<close>

theorem joinWaitingList_result_status:
  assumes "fst (joinWaitingList ttl ctx eventId userId qn n) = Inr r"
  shows "\<exists>e a. waitingList (snd (joinWaitingList ttl ctx eventId userId qn n))
                 = waitingList ctx @ [e]
             \<and> status r = wl_status e
             \<and> checkAvailability ctx eventId qn = Inr a
             \<and> status r = (if available a then OFFERED else WAITING)
             \<and> (status r = OFFERED \<longrightarrow>
                  message r = [Text ''Ticket offered - you have '', Number (ttl / 60000),
                               Text '' minutes to purchase''])"
proof (cases "has_active_entry ctx eventId userId")
  case True
  then show ?thesis using assms by (simp add: joinWaitingList_existing_entry)
next
  case free: False
  show ?thesis
  proof (cases "events ctx eventId")
    case None
    then show ?thesis using assms by (simp add: joinWaitingList_no_event[OF free])
  next
    case (Some ev)
    obtain a where a: "checkAvailability ctx eventId qn = Inr a"
      using checkAvailability_total[OF Some] by blast
    show ?thesis
      using assms
      by (cases "available a") (auto simp: joinWaitingList_admitted[OF free Some a] a)
  qed
qed

text \<open>An offer of 1800000 milliseconds is announced as 30 minutes.\<close>

theorem joinWaitingList_result_status_witness:
  "fst (joinWaitingList 1800000 db_one_sold 1 ''alice'' 1000 1000)
     = Inr \<lparr>success = True, status = OFFERED,
            message = [Text ''Ticket offered - you have '', Number 30,
                       Text '' minutes to purchase'']\<rparr>
   \<and> (\<exists>e. waitingList (snd (joinWaitingList 1800000 db_one_sold 1 ''alice'' 1000 1000)) = [e]
          \<and> wl_status e = OFFERED)"
proof -
  have r: "fst (joinWaitingList 1800000 db_one_sold 1 ''alice'' 1000 1000)
     = Inr \<lparr>success = True, status = OFFERED,
            message = [Text ''Ticket offered - you have '', Number 30,
                       Text '' minutes to purchase'']\<rparr>"
    by (simp add: joinWaitingList_def checkAvailability_def insert_waitingList_def
          runAfter_def db_one_sold_def concert_def TICKET_STATUS_VALID_def
          TICKET_STATUS_USED_def)
  show ?thesis
    using joinWaitingList_result_status[OF r] r by (auto simp: db_one_sold_def)
qed

text \<open>
  C10. In \<open>checkAvailability\<close> and in \<open>getEventAvailability\<close> an OFFERED entry with
  no \<open>offerExpiresAt\<close> is never counted as an active offer when \<open>now\<close> is not negative:
  the missing time stamp is read as 0, which is not greater than \<open>now\<close>. Both queries
  return a result for an existing event, their \<open>activeOffers\<close> is the count of the
  OFFERED entries whose expiry is present and later than \<open>now\<close>, and the result is the
  one computed on the state without the entries that lack the field.
\<close>

theorem unexpiring_offer_not_counted:
  assumes "events ctx eventId = Some ev" and "0 \<le> now"
  shows "\<exists>a g. checkAvailability ctx eventId now = Inr a
             \<and> getEventAvailability ctx eventId now = Inr g
             \<and> av_activeOffers a = spec_activeOfferCount ctx eventId now
             \<and> ea_activeOffers g = spec_activeOfferCount ctx eventId now
             \<and> checkAvailability (without_unexpiring_offers ctx) eventId now = Inr a
             \<and> getEventAvailability (without_unexpiring_offers ctx) eventId now = Inr g"
proof -
  have a: "0 \<le> now \<or> (\<forall>e \<in> set (waitingList ctx).
             wl_eventId e = eventId \<and> wl_status e = OFFERED \<longrightarrow> offerExpiresAt e \<noteq> None)"
    using assms(2) by simp
  have e: "events (without_unexpiring_offers ctx) = events ctx"
    and k: "tickets (without_unexpiring_offers ctx) = tickets ctx"
    and w: "waitingList (without_unexpiring_offers ctx) =
              filter (\<lambda>e. \<not> (wl_status e = OFFERED \<and> offerExpiresAt e = None))
                (waitingList ctx)"
    by (simp_all add: without_unexpiring_offers_def)
  have same: "filter (\<lambda>e. (case offerExpiresAt e of None \<Rightarrow> 0 | Some x \<Rightarrow> x) > now)
                (filter (\<lambda>e. wl_eventId e = eventId \<and> wl_status e = OFFERED)
                   (filter (\<lambda>e. \<not> (wl_status e = OFFERED \<and> offerExpiresAt e = None))
                      (waitingList ctx)))
              = filter (\<lambda>e. (case offerExpiresAt e of None \<Rightarrow> 0 | Some x \<Rightarrow> x) > now)
                  (filter (\<lambda>e. wl_eventId e = eventId \<and> wl_status e = OFFERED)
                     (waitingList ctx))"
    unfolding filter_filter
    by (rule filter_cong) (use assms(2) in \<open>auto split: option.splits\<close>)
  have c: "checkAvailability (without_unexpiring_offers ctx) eventId now
             = checkAvailability ctx eventId now"
    unfolding checkAvailability_def Let_def e k w same ..
  have g: "getEventAvailability (without_unexpiring_offers ctx) eventId now
             = getEventAvailability ctx eventId now"
    unfolding getEventAvailability_def Let_def e k w same ..
  have c1: "\<exists>a. checkAvailability ctx eventId now = Inr a
                \<and> av_activeOffers a = spec_activeOfferCount ctx eventId now"
    unfolding checkAvailability_def Let_def offer_filter_count[OF a]
    by (simp add: assms(1))
  have g1: "\<exists>g. getEventAvailability ctx eventId now = Inr g
                \<and> ea_activeOffers g = spec_activeOfferCount ctx eventId now"
    unfolding getEventAvailability_def Let_def offer_filter_count[OF a]
    by (simp add: assms(1))
  from c g c1 g1 show ?thesis by auto
qed

text \<open>
  With one ticket of two sold and an OFFERED entry that has no expiry, one spot is
  available at time 0: the entry does not count.
\<close>

theorem unexpiring_offer_not_counted_witness:
  "events db_unexpiring 1 = Some concert \<and> (0::real) \<le> 0
   \<and> (\<exists>a g. checkAvailability db_unexpiring 1 0 = Inr a
           \<and> getEventAvailability db_unexpiring 1 0 = Inr g
           \<and> av_activeOffers a = 0 \<and> ea_activeOffers g = 0
           \<and> availableSpots a = 1 \<and> remainingTickets g = 1)"
  using unexpiring_offer_not_counted
          [where ctx = db_unexpiring and eventId = 1 and ev = concert and now = 0]
  by (simp add: db_unexpiring_def concert_def checkAvailability_def getEventAvailability_def
        TICKET_STATUS_VALID_def TICKET_STATUS_USED_def)

end
